theory Spec2Isabelle
  imports Complex_Main "HOL-Library.Sublist"
begin

section \<open>Settings and perception data\<close>

text \<open>
  The navigation logic of the driving controller (\<^verbatim>\<open>navigation.js\<close>) reads its
  constants from the module \<^verbatim>\<open>game-settings\<close>, which is not among the sources.
  The constants are therefore parameters of the model: every function takes the record
  \<open>settings\<close>. JavaScript numbers are modelled as reals (timestamps, counts and rounded
  values as integers); rounding error of the double arithmetic is not modelled.
\<close>

record camera_settings =
  H_FIELD_OF_VIEW :: real
  FOCAL_LENGTH_MM :: real
  SENSOR_HEIGHT_MM :: real

record settings =
  MAX_SPEED :: real
  BALLS_NEEDED :: int
  BALL_LABEL_SUFFIX :: string
  HOME_LABEL_SUFFIX :: string
  BALL_SIZE_MM :: real
  HOME_SIZE_MM :: real
  MIN_DISTANCE_TO_CAMERA_MM :: real
  camera :: camera_settings

text \<open>\<^verbatim>\<open>const TURN_SPEED = Settings.MAX_SPEED / 10;\<close>\<close>

definition TURN_SPEED :: "settings \<Rightarrow> real" where
  "TURN_SPEED S = MAX_SPEED S / 10"

definition HIGH_BALL_TOP_BOUND :: real where
  "HIGH_BALL_TOP_BOUND = 0.2"

definition HIGH_BALL_SCORE :: real where
  "HIGH_BALL_SCORE = 0.5"

text \<open>
  One element of \<^verbatim>\<open>visionResponse.bBoxes\<close>. The fields \<^verbatim>\<open>x, y, w, h\<close> of the
  source are \<open>b_x, b_y, b_w, b_h\<close> here.
\<close>

record bbox =
  label :: string
  score :: real
  b_x :: real
  b_y :: real
  b_w :: real
  b_h :: real

record vision_response =
  bBoxes :: "bbox list"

text \<open>Sample constants for evaluating the model on concrete inputs.\<close>

definition sample_settings :: settings where
  "sample_settings =
     \<lparr>MAX_SPEED = 100, BALLS_NEEDED = 3,
      BALL_LABEL_SUFFIX = ''_ball'', HOME_LABEL_SUFFIX = ''_home'',
      BALL_SIZE_MM = 60, HOME_SIZE_MM = 200, MIN_DISTANCE_TO_CAMERA_MM = 20,
      camera = \<lparr>H_FIELD_OF_VIEW = 64, FOCAL_LENGTH_MM = 3, SENSOR_HEIGHT_MM = 2\<rparr>\<rparr>"

section \<open>Geometry: angle and distance from a bounding box\<close>

text \<open>\<^verbatim>\<open>Math.round\<close>: the nearest integer, a tie going up.\<close>

definition Math_round :: "real \<Rightarrow> int" where
  "Math_round v = \<lfloor>v + 1 / 2\<rfloor>"

definition findAngle :: "settings \<Rightarrow> bbox \<Rightarrow> int" where
  "findAngle S bBox =
     (let centerX = b_x bBox + b_w bBox / 2;
          angle = (centerX - 0.5) * H_FIELD_OF_VIEW (camera S) * 0.75
      in Math_round angle)"

text \<open>
  \<^verbatim>\<open>findDistanceMM\<close> in two parts. \<open>pinholeMM\<close> is its first assignment to
  \<^verbatim>\<open>distanceMM\<close>, the distance before the empirical correction. JavaScript divides
  by zero without raising and yields an infinity or NaN, which no real number stands for:
  the model returns \<open>None\<close> there and follows the quotient no further.
  \<open>findDistanceMM\<close> then applies the correction and rounds. The constants
  \<^verbatim>\<open>CALIBRATION_MULTIPLIER\<close> and \<^verbatim>\<open>CALIBRATION_ADDON_MM\<close> of the source are
  never used.
\<close>

definition pinholeMM :: "settings \<Rightarrow> bbox \<Rightarrow> real \<Rightarrow> real option" where
  "pinholeMM S bBox realObjectVerticalSizeMm =
     (let relative_object_size = max (b_h bBox) (b_w bBox);
          denominator = relative_object_size * SENSOR_HEIGHT_MM (camera S)
      in if denominator = 0 then None
         else Some (FOCAL_LENGTH_MM (camera S) * realObjectVerticalSizeMm / denominator
                    - MIN_DISTANCE_TO_CAMERA_MM S))"

definition findDistanceMM :: "settings \<Rightarrow> bbox \<Rightarrow> real \<Rightarrow> int option" where
  "findDistanceMM S bBox realObjectVerticalSizeMm =
     (case pinholeMM S bBox realObjectVerticalSizeMm of
        None \<Rightarrow> None
      | Some distanceMM \<Rightarrow>
          Some (Math_round
            (if distanceMM < 95 then 20
             else if distanceMM < 325 then distanceMM - 35
             else distanceMM)))"

section \<open>Drive commands and the command history\<close>

text \<open>
  Modelled from the spec: the module \<^verbatim>\<open>drive-message\<close> (the class
  \<^verbatim>\<open>DriveMessage\<close> and the goal and mode constants) is not among the sources. The
  spec describes a drive command as a mode flag, a goal tag, a correlation identifier and
  an ordered list of primitive actions (turn by angle, drive by signed distance, set
  speed, open or close the gripper, request the next sensor reading, count a delivered
  ball), built incrementally. Each method of the class that \<^verbatim>\<open>navigation.js\<close> calls
  is a function on the record below: a goal or mode setter overwrites the field, every
  other method appends one action. A new message has no mode, goal or correlation
  identifier yet.
\<close>

datatype driving_mode = MANUAL_MODE | AUTOMATIC_MODE | DEBUG_MODE

datatype goal_tag =
  SEEK_BALL_TURN | SEEK_BALL_MOVE | GO2BALL | CHECK_GRIP | GO2BASE | SEEK_HOME_TURN | GAME_END

datatype action =
  SetSpeed real
| MakeTurn int
| TurnRight int
| Drive int
| GripperOpen
| GripperClose
| AddBallCount
| SendSensorMessage

record drive_message =
  mode :: "driving_mode option"
  goal :: "goal_tag option"
  correlationID :: "int option"
  actions :: "action list"

definition new_DriveMessage :: drive_message where
  "new_DriveMessage = \<lparr>mode = None, goal = None, correlationID = None, actions = []\<rparr>"

definition setModeAutomatic :: "drive_message \<Rightarrow> drive_message" where
  "setModeAutomatic command = command\<lparr>mode := Some AUTOMATIC_MODE\<rparr>"

definition setGoal :: "goal_tag \<Rightarrow> drive_message \<Rightarrow> drive_message" where
  "setGoal g command = command\<lparr>goal := Some g\<rparr>"

definition setGoalSeekBallTurn :: "drive_message \<Rightarrow> drive_message" where
  "setGoalSeekBallTurn = setGoal SEEK_BALL_TURN"

definition setGoalSeekBallMove :: "drive_message \<Rightarrow> drive_message" where
  "setGoalSeekBallMove = setGoal SEEK_BALL_MOVE"

definition setGoalSeekHomeTurn :: "drive_message \<Rightarrow> drive_message" where
  "setGoalSeekHomeTurn = setGoal SEEK_HOME_TURN"

definition setGoalGo2Ball :: "drive_message \<Rightarrow> drive_message" where
  "setGoalGo2Ball = setGoal GO2BALL"

definition setGoalGo2Base :: "drive_message \<Rightarrow> drive_message" where
  "setGoalGo2Base = setGoal GO2BASE"

definition setGoalCheck4Grip :: "drive_message \<Rightarrow> drive_message" where
  "setGoalCheck4Grip = setGoal CHECK_GRIP"

definition setGoalGameEnd :: "drive_message \<Rightarrow> drive_message" where
  "setGoalGameEnd = setGoal GAME_END"

definition setCorrelationID :: "int option \<Rightarrow> drive_message \<Rightarrow> drive_message" where
  "setCorrelationID ts command = command\<lparr>correlationID := ts\<rparr>"

definition addAction :: "action \<Rightarrow> drive_message \<Rightarrow> drive_message" where
  "addAction a command = command\<lparr>actions := actions command @ [a]\<rparr>"

definition setSpeed :: "real \<Rightarrow> drive_message \<Rightarrow> drive_message" where
  "setSpeed v = addAction (SetSpeed v)"

definition makeTurn :: "int \<Rightarrow> drive_message \<Rightarrow> drive_message" where
  "makeTurn angle = addAction (MakeTurn angle)"

definition turnRight :: "int \<Rightarrow> drive_message \<Rightarrow> drive_message" where
  "turnRight angle = addAction (TurnRight angle)"

definition drive :: "int \<Rightarrow> drive_message \<Rightarrow> drive_message" where
  "drive distance = addAction (Drive distance)"

definition gripperOpen :: "drive_message \<Rightarrow> drive_message" where
  "gripperOpen = addAction GripperOpen"

definition gripperClose :: "drive_message \<Rightarrow> drive_message" where
  "gripperClose = addAction GripperClose"

definition addBallCount :: "drive_message \<Rightarrow> drive_message" where
  "addBallCount = addAction AddBallCount"

definition sendSensorMessage :: "drive_message \<Rightarrow> drive_message" where
  "sendSensorMessage = addAction SendSensorMessage"

text \<open>
  \<^verbatim>\<open>countGoals\<close>: the history is the array of sent commands, oldest first. The loop
  starts at \<open>i = length\<close> and walks down while entry \<open>i - 1\<close> carries the goal.
\<close>

fun countGoals_loop :: "drive_message list \<Rightarrow> goal_tag \<Rightarrow> nat \<Rightarrow> nat \<Rightarrow> nat" where
  "countGoals_loop commandHistory g 0 result = result"
| "countGoals_loop commandHistory g (Suc i) result =
     (if goal (commandHistory ! i) = Some g
      then countGoals_loop commandHistory g i (result + 1)
      else result)"

definition countGoals :: "drive_message list \<Rightarrow> goal_tag \<Rightarrow> nat" where
  "countGoals commandHistory g = countGoals_loop commandHistory g (length commandHistory) 0"

text \<open>
  The consecutive count in the spec's words: the number of most recent history entries
  that share the goal tag, scanned backward until the first mismatch.
\<close>

definition countConsecutive :: "drive_message list \<Rightarrow> goal_tag \<Rightarrow> nat" where
  "countConsecutive commandHistory g =
     length (takeWhile (\<lambda>c. goal c = Some g) (rev commandHistory))"

section \<open>Search strategies\<close>

text \<open>
  \<^verbatim>\<open>Math.random()\<close> is an input of the model: \<open>rnd\<close> holds the values that the
  first and the second call return, each in \<open>[0, 1)\<close>.
\<close>

definition ballSearchStrategy ::
  "settings \<Rightarrow> drive_message list \<Rightarrow> real \<times> real \<Rightarrow> vision_response \<Rightarrow> drive_message" where
  "ballSearchStrategy S commandHistory rnd visionResponse =
     (let command = new_DriveMessage;
          command = setModeAutomatic command
      in if countGoals commandHistory SEEK_BALL_TURN < 5 then
           (let angle = 67;
                command = setGoalSeekBallTurn command;
                command = setSpeed (TURN_SPEED S) command;
                command = makeTurn angle command
            in command)
         else
           (let command = setGoalSeekBallMove command;
                minDistanceMm = 100;
                maxRandomDistanceMm = 600;
                distance = minDistanceMm + \<lfloor>fst rnd * maxRandomDistanceMm\<rfloor>;
                distance = (if snd rnd < 0.25 then - distance else distance);
                command = setSpeed (TURN_SPEED S) command;
                command = drive distance command
            in command))"

definition homeSearchStrategy ::
  "settings \<Rightarrow> drive_message list \<Rightarrow> real \<times> real \<Rightarrow> vision_response \<Rightarrow> drive_message" where
  "homeSearchStrategy S commandHistory rnd visionResponse =
     (let command = new_DriveMessage;
          command = setModeAutomatic command;
          homeTurns = countGoals commandHistory SEEK_HOME_TURN
      in if homeTurns < 5 then
           (let angle = 60;
                command = setGoalSeekHomeTurn command;
                command = setSpeed (MAX_SPEED S) command;
                command = makeTurn angle command
            in command)
         else
           (let command = setGoalGo2Base command;
                minDistanceMm = 200;
                maxRandomDistanceMm = 700;
                distance = minDistanceMm + \<lfloor>fst rnd * maxRandomDistanceMm\<rfloor>;
                command = setSpeed (MAX_SPEED S) command;
                command = drive distance command
            in command))"

section \<open>Choosing the detection to approach\<close>

text \<open>
  Strings are byte lists; \<^verbatim>\<open>toLowerCase\<close> and \<^verbatim>\<open>toLocaleLowerCase\<close> are modelled
  on the ASCII letters, which is what the labels of the detector consist of.
\<close>

definition toLowerCase_char :: "char \<Rightarrow> char" where
  "toLowerCase_char c =
     (case map_of (zip ''ABCDEFGHIJKLMNOPQRSTUVWXYZ'' ''abcdefghijklmnopqrstuvwxyz'') c of
        None \<Rightarrow> c
      | Some l \<Rightarrow> l)"

definition toLowerCase :: "string \<Rightarrow> string" where
  "toLowerCase str = map toLowerCase_char str"

text \<open>
  \<^verbatim>\<open>String.prototype.indexOf\<close>: the position of the first occurrence of the
  search string, or \<open>-1\<close>.
\<close>

fun indexOf_from :: "string \<Rightarrow> string \<Rightarrow> nat \<Rightarrow> int" where
  "indexOf_from [] searchString i = (if searchString = [] then int i else - 1)"
| "indexOf_from (c # cs) searchString i =
     (if prefix searchString (c # cs) then int i else indexOf_from cs searchString (Suc i))"

definition indexOf :: "string \<Rightarrow> string \<Rightarrow> int" where
  "indexOf str searchString = indexOf_from str searchString 0"

text \<open>The test guarding the \<^verbatim>\<open>continue\<close> in \<^verbatim>\<open>findNearestObject\<close>.\<close>

definition likely_false_positive :: "settings \<Rightarrow> bbox \<Rightarrow> bool" where
  "likely_false_positive S obj \<longleftrightarrow>
     indexOf (toLowerCase (label obj)) (toLowerCase (BALL_LABEL_SUFFIX S)) \<ge> 0
     \<and> score obj < HIGH_BALL_SCORE \<and> b_y obj < HIGH_BALL_TOP_BOUND"

text \<open>The test \<^verbatim>\<open>obj.label.toLocaleLowerCase().indexOf(objectType.toLowerCase()) >= 0\<close>.\<close>

definition right_object_type :: "string \<Rightarrow> bbox \<Rightarrow> bool" where
  "right_object_type objectType obj \<longleftrightarrow>
     indexOf (toLowerCase (label obj)) (toLowerCase objectType) \<ge> 0"

text \<open>
  The loop \<^verbatim>\<open>for (var i = visionResponse.bBoxes.length; i--;)\<close>: the body sees the
  indices \<open>length - 1\<close> down to \<open>0\<close>.
\<close>

fun findNearestObject_loop ::
  "settings \<Rightarrow> string \<Rightarrow> bbox list \<Rightarrow> nat \<Rightarrow> real \<Rightarrow> bbox option \<Rightarrow> bbox option" where
  "findNearestObject_loop S objectType boxes 0 foundSize nearestObject = nearestObject"
| "findNearestObject_loop S objectType boxes (Suc i) foundSize nearestObject =
     (let obj = boxes ! i
      in if likely_false_positive S obj
         then findNearestObject_loop S objectType boxes i foundSize nearestObject
         else if right_object_type objectType obj then
           (let thisSize = max (b_w obj) (b_h obj) * score obj
            in if foundSize < thisSize
               then findNearestObject_loop S objectType boxes i thisSize (Some obj)
               else findNearestObject_loop S objectType boxes i foundSize nearestObject)
         else findNearestObject_loop S objectType boxes i foundSize nearestObject)"

definition findNearestObject :: "settings \<Rightarrow> string \<Rightarrow> vision_response \<Rightarrow> bbox option" where
  "findNearestObject S objectType visionResponse =
     findNearestObject_loop S objectType (bBoxes visionResponse)
       (length (bBoxes visionResponse)) 0 None"

text \<open>
  Two notions used to state what the selection returns: a detection can be selected when
  it passes the false-positive test and carries the wanted label, and it is ranked by the
  value that the loop computes as \<^verbatim>\<open>thisSize\<close>.
\<close>

definition selectable :: "settings \<Rightarrow> string \<Rightarrow> bbox \<Rightarrow> bool" where
  "selectable S objectType obj \<longleftrightarrow>
     \<not> likely_false_positive S obj \<and> right_object_type objectType obj"

definition weighted_size :: "bbox \<Rightarrow> real" where
  "weighted_size obj = max (b_w obj) (b_h obj) * score obj"

section \<open>Directions towards a detected ball or home base\<close>

text \<open>
  \<open>TypeError\<close> is the exception JavaScript raises on reading a property of
  \<^verbatim>\<open>undefined\<close>. \<open>NotFinite\<close> is no exception of the program: it marks the inputs
  on which the distance is no real number (see \<open>pinholeMM\<close>), where the model stops.
\<close>

datatype error = TypeError | NotFinite

definition calculateBallDirections ::
  "settings \<Rightarrow> drive_message list \<Rightarrow> real \<times> real \<Rightarrow> bbox \<Rightarrow> bool \<Rightarrow> vision_response
     \<Rightarrow> error + drive_message" where
  "calculateBallDirections S commandHistory rnd bBox obstacleFlag response =
     (case findDistanceMM S bBox (BALL_SIZE_MM S) of
        None \<Rightarrow> Inl NotFinite
      | Some distance \<Rightarrow>
         (let angle = findAngle S bBox;
              command = new_DriveMessage;
              command = setModeAutomatic command;
              slowApproachZoneMm = 250;
              ballCaptureDistanceMm = 70;
              ballCaptureAngle = 10;
              EXTRA_DISTANCE = 30
          in if \<bar>angle\<bar> \<le> ballCaptureAngle \<and> distance \<le> ballCaptureDistanceMm then
               (if commandHistory = [] then Inl TypeError
                else if goal (last commandHistory) = Some CHECK_GRIP then
                  Inr (setGoalGo2Base command)
                else
                  (let command = gripperClose command;
                       command = setGoalCheck4Grip command;
                       command = setSpeed (MAX_SPEED S / 2) command;
                       command = drive (- slowApproachZoneMm) command
                   in Inr command))
             else if distance < slowApproachZoneMm then
               (let command = setGoalGo2Ball command;
                    command = makeTurn angle command;
                    command = gripperOpen command;
                    speed = MAX_SPEED S * 0.05;
                    distance = distance + EXTRA_DISTANCE;
                    command = setSpeed speed command;
                    command = drive distance command
                in Inr command)
             else if obstacleFlag then
               Inr (ballSearchStrategy S commandHistory rnd response)
             else
               (let speed = MAX_SPEED S;
                    command = setGoalGo2Ball command;
                    command = makeTurn angle command;
                    distance = distance - 125;
                    command = setSpeed speed command;
                    command = drive distance command
                in Inr command)))"

definition calculateHomeDirections ::
  "settings \<Rightarrow> drive_message list \<Rightarrow> real \<times> real \<Rightarrow> bbox \<Rightarrow> bool \<Rightarrow> vision_response
     \<Rightarrow> error + drive_message" where
  "calculateHomeDirections S commandHistory rnd bBox obstacleFlag response =
     (case findDistanceMM S bBox (HOME_SIZE_MM S) of
        None \<Rightarrow> Inl NotFinite
      | Some distance \<Rightarrow>
         (let angle = findAngle S bBox;
              command = new_DriveMessage;
              command = setModeAutomatic command;
              BALL_RELEASE_DISTANCE = 850;
              EXTRA_DISTANCE = 100
          in if distance < BALL_RELEASE_DISTANCE then
               (let command = addBallCount command;
                    command = gripperOpen command;
                    command = setSpeed (MAX_SPEED S / 10) command;
                    command = drive (- 100) command;
                    command = setSpeed (MAX_SPEED S) command;
                    command = drive (- 1000) command;
                    command = setSpeed (TURN_SPEED S) command;
                    command = turnRight 90 command;
                    command = gripperClose command;
                    command = setGoalGo2Ball command
                in Inr command)
             else if obstacleFlag then
               Inr (homeSearchStrategy S commandHistory rnd response)
             else
               (let command = setGoalGo2Base command;
                    command = setSpeed (TURN_SPEED S) command;
                    command = makeTurn angle command;
                    command = setSpeed (MAX_SPEED S) command;
                    command = drive (distance - BALL_RELEASE_DISTANCE + EXTRA_DISTANCE) command
                in Inr command)))"

section \<open>The decision for one sensor message\<close>

text \<open>
  A sensor message as the navigation reads it. A field that the JSON may lack is an
  option: \<open>None\<close> is JavaScript's \<^verbatim>\<open>undefined\<close>.
\<close>

record car_state =
  ballsCollected :: "int option"
  color :: "string option"
  obstacleFound :: "bool option"

record sensor_message =
  timestampMs :: "int option"
  carState :: "car_state option"

text \<open>String concatenation turns \<^verbatim>\<open>undefined\<close> into the text \<^verbatim>\<open>undefined\<close>.\<close>

definition js_string :: "string option \<Rightarrow> string" where
  "js_string v = (case v of None \<Rightarrow> ''undefined'' | Some str \<Rightarrow> str)"

text \<open>
  The modules \<^verbatim>\<open>vision\<close> and \<^verbatim>\<open>simulation\<close> are not among the sources. The
  detections that \<^verbatim>\<open>recognizeObjects\<close> resolves to are the parameter \<open>response\<close>;
  the simulator is the record below, its flag and the command it would hand out.
\<close>

record simulation =
  simulate :: bool
  nextDrivingCommand :: drive_message

definition navigate2home ::
  "settings \<Rightarrow> drive_message list \<Rightarrow> real \<times> real \<Rightarrow> vision_response \<Rightarrow> sensor_message
     \<Rightarrow> error + drive_message" where
  "navigate2home S commandHistory rnd response sensorMessage =
     (case carState sensorMessage of
        None \<Rightarrow> Inl TypeError
      | Some cs \<Rightarrow>
         (let objectLabel = js_string (color cs) @ HOME_LABEL_SUFFIX S;
              bBox = findNearestObject S objectLabel response;
              obstacle_found = (obstacleFound cs = Some True);
              directions =
                (case bBox of
                   Some b \<Rightarrow> calculateHomeDirections S commandHistory rnd b obstacle_found response
                 | None \<Rightarrow> Inr (homeSearchStrategy S commandHistory rnd response))
          in case directions of
               Inl e \<Rightarrow> Inl e
             | Inr command \<Rightarrow>
                 Inr (sendSensorMessage (setCorrelationID (timestampMs sensorMessage) command))))"

definition navigate2ball ::
  "settings \<Rightarrow> simulation \<Rightarrow> drive_message list \<Rightarrow> real \<times> real \<Rightarrow> vision_response
     \<Rightarrow> sensor_message \<Rightarrow> error + drive_message" where
  "navigate2ball S driveSimulation commandHistory rnd response sensorMessage =
     (if simulate driveSimulation then Inr (nextDrivingCommand driveSimulation)
      else
        (case carState sensorMessage of
           None \<Rightarrow> Inl TypeError
         | Some cs \<Rightarrow>
            (let objectLabel = js_string (color cs) @ BALL_LABEL_SUFFIX S;
                 bBox = findNearestObject S objectLabel response;
                 obstacle_found = (obstacleFound cs = Some True);
                 directions =
                   (case bBox of
                      Some b \<Rightarrow>
                        calculateBallDirections S commandHistory rnd b obstacle_found response
                    | None \<Rightarrow> Inr (ballSearchStrategy S commandHistory rnd response))
             in case directions of
                  Inl e \<Rightarrow> Inl e
                | Inr command \<Rightarrow>
                    Inr (sendSensorMessage
                          (setCorrelationID (timestampMs sensorMessage) command)))))"

definition gameOver :: "sensor_message \<Rightarrow> drive_message" where
  "gameOver sensorMessage =
     (let command = new_DriveMessage;
          command = setCorrelationID (timestampMs sensorMessage) command;
          command = setGoalGameEnd command;
          command = sendSensorMessage command
      in command)"

text \<open>
  \<^verbatim>\<open>nextMove\<close>. The first statement reads \<^verbatim>\<open>sensorMessage.carState.ballsCollected\<close>,
  which raises when the message has no car state. A missing ball count compares as
  \<^verbatim>\<open>undefined < BALLS_NEEDED\<close>, which is false.
\<close>

definition nextMove ::
  "settings \<Rightarrow> simulation \<Rightarrow> drive_message list \<Rightarrow> real \<times> real \<Rightarrow> vision_response
     \<Rightarrow> sensor_message \<Rightarrow> error + drive_message" where
  "nextMove S driveSimulation commandHistory rnd response sensorMessage =
     (case carState sensorMessage of
        None \<Rightarrow> Inl TypeError
      | Some cs \<Rightarrow>
         if countGoals commandHistory GO2BASE > 0 \<or> countGoals commandHistory SEEK_HOME_TURN > 0
         then navigate2home S commandHistory rnd response sensorMessage
         else if (case ballsCollected cs of None \<Rightarrow> False | Some n \<Rightarrow> n < BALLS_NEEDED S)
         then navigate2ball S driveSimulation commandHistory rnd response sensorMessage
         else Inr (gameOver sensorMessage))"

section \<open>Admitting sensor messages\<close>

text \<open>
  The controller's counters and the validity check of inbound messages. The current
  time (\<^verbatim>\<open>new Date().getTime()\<close>) is the parameter \<open>now\<close>. \<^verbatim>\<open>!msg.timestampMs\<close>
  holds for a missing timestamp and for the timestamp 0.
\<close>

record controller =
  totalMessagesReceived :: nat
  rejectedOutOfOrderMessages :: nat
  rejectedFormatMessages :: nat
  totalErrors :: nat
  maxMsgTimeStampMs :: int
  inboundMsgHistory :: "sensor_message list"
  currentDrivingMode :: driving_mode

definition MAX_MSG_AGE_SEC :: int where
  "MAX_MSG_AGE_SEC = 60"

definition MAX_INBOUND_HISTORY :: nat where
  "MAX_INBOUND_HISTORY = 60 * 60"

definition isMessageValid :: "int \<Rightarrow> controller \<Rightarrow> sensor_message \<Rightarrow> bool \<times> controller" where
  "isMessageValid now st msg =
     (case timestampMs msg of
        None \<Rightarrow> (False, st\<lparr>rejectedFormatMessages := rejectedFormatMessages st + 1\<rparr>)
      | Some t \<Rightarrow>
          if t = 0 then
            (False, st\<lparr>rejectedFormatMessages := rejectedFormatMessages st + 1\<rparr>)
          else if maxMsgTimeStampMs st > t then
            (False, st\<lparr>rejectedOutOfOrderMessages := rejectedOutOfOrderMessages st + 1\<rparr>)
          else
            (let st = st\<lparr>maxMsgTimeStampMs := t\<rparr>;
                 oldestAllowedMs = now - MAX_MSG_AGE_SEC * 1000
             in if t < oldestAllowedMs then
                  (False, st\<lparr>rejectedOutOfOrderMessages := rejectedOutOfOrderMessages st + 1\<rparr>)
                else (True, st)))"

definition saveInboundMessage :: "controller \<Rightarrow> sensor_message \<Rightarrow> controller" where
  "saveInboundMessage st message =
     (let history = inboundMsgHistory st;
          history = (if length history \<ge> MAX_INBOUND_HISTORY
                     then drop (length history div 10) history
                     else history)
      in st\<lparr>inboundMsgHistory := history @ [message]\<rparr>)"

text \<open>
  \<^verbatim>\<open>inboudMessageHandler\<close> up to the call of the navigation: the second component
  is the message handed to \<^verbatim>\<open>navigation.nextMove\<close>, if any.
\<close>

definition inboudMessageHandler ::
  "int \<Rightarrow> controller \<Rightarrow> sensor_message \<Rightarrow> controller \<times> sensor_message option" where
  "inboudMessageHandler now st data =
     (let st = st\<lparr>totalMessagesReceived := totalMessagesReceived st + 1\<rparr>;
          (valid, st) = isMessageValid now st data
      in if \<not> valid then (st\<lparr>totalErrors := totalErrors st + 1\<rparr>, None)
         else
           (let st = saveInboundMessage st data
            in if currentDrivingMode st = MANUAL_MODE then (st, None)
               else (st, Some data)))"

section \<open>Sample inputs\<close>

text \<open>
  Concrete inputs on which the model is evaluated below: a message of a car that looks
  for red balls and carries none, a ball that fills most of the image (close enough to
  capture), a ball farther away, and a switched-off simulator.
\<close>

definition sample_message :: sensor_message where
  "sample_message =
     \<lparr>timestampMs = Some 1519671071945,
      carState = Some \<lparr>ballsCollected = Some 0, color = Some ''red'', obstacleFound = None\<rparr>\<rparr>"

definition near_ball :: bbox where
  "near_ball = \<lparr>label = ''red_ball'', score = 0.9, b_x = 0.1, b_y = 0.1, b_w = 0.8, b_h = 0.8\<rparr>"

definition far_ball :: bbox where
  "far_ball = \<lparr>label = ''red_ball'', score = 0.9, b_x = 0.45, b_y = 0.3, b_w = 0.1, b_h = 0.1\<rparr>"

definition no_simulation :: simulation where
  "no_simulation = \<lparr>simulate = False, nextDrivingCommand = new_DriveMessage\<rparr>"

text \<open>A sent command that carries the given goal and nothing else.\<close>

definition sent :: "goal_tag \<Rightarrow> drive_message" where
  "sent g = setGoal g new_DriveMessage"

text \<open>
  The controller after a start in automatic mode: the counters are zero, no message has
  been seen, and the maximum timestamp has its initial value 0.
\<close>

definition started_controller :: controller where
  "started_controller =
     \<lparr>totalMessagesReceived = 0, rejectedOutOfOrderMessages = 0, rejectedFormatMessages = 0,
      totalErrors = 0, maxMsgTimeStampMs = 0, inboundMsgHistory = [],
      currentDrivingMode = AUTOMATIC_MODE\<rparr>"

section \<open>Properties of the geometry\<close>

lemma Math_round_mono: "u \<le> v \<Longrightarrow> Math_round u \<le> Math_round v"
  unfolding Math_round_def by (intro floor_mono) simp

lemma Math_round_of_int: "Math_round (of_int k) = k"
  unfolding Math_round_def by linarith

text \<open>
  Claim C5. For every bounding box whose larger side and the sensor height give a
  non-zero denominator, the distance estimator computes the pinhole value
  \<open>d = focalLength * realSize / (max h w * sensorHeight) - minDistanceToCamera\<close>
  and returns 20 when \<open>d < 95\<close>, \<open>d - 35\<close> rounded when \<open>95 \<le> d < 325\<close>, and \<open>d\<close>
  rounded when \<open>325 \<le> d\<close>.
\<close>

theorem findDistanceMM_bands:
  fixes S :: settings and bBox :: bbox and realSize :: real
  assumes nonzero: "max (b_h bBox) (b_w bBox) * SENSOR_HEIGHT_MM (camera S) \<noteq> 0"
  defines "d \<equiv> FOCAL_LENGTH_MM (camera S) * realSize
                 / (max (b_h bBox) (b_w bBox) * SENSOR_HEIGHT_MM (camera S))
               - MIN_DISTANCE_TO_CAMERA_MM S"
  shows "pinholeMM S bBox realSize = Some d
       \<and> (d < 95 \<longrightarrow> findDistanceMM S bBox realSize = Some 20)
       \<and> (95 \<le> d \<and> d < 325 \<longrightarrow>
            findDistanceMM S bBox realSize = Some (Math_round (d - 35)))
       \<and> (325 \<le> d \<longrightarrow> findDistanceMM S bBox realSize = Some (Math_round d))"
proof -
  have p: "pinholeMM S bBox realSize = Some d"
    using nonzero by (simp add: pinholeMM_def d_def Let_def)
  have twenty: "Math_round 20 = 20"
    using Math_round_of_int [of 20] by simp
  show ?thesis
    by (simp add: findDistanceMM_def p twenty)
qed

text \<open>
  One box for each band, seen with the sample constants: a largest side of 0.1 gives the
  pinhole value 880 mm, which is kept; a side of 0.5 gives 160 mm, returned as 125; a
  side of 0.9 gives 80 mm, returned as 20.
\<close>

theorem findDistanceMM_bands_witness:
  "max (b_h far_ball) (b_w far_ball) * SENSOR_HEIGHT_MM (camera sample_settings) \<noteq> 0
   \<and> pinholeMM sample_settings far_ball (BALL_SIZE_MM sample_settings) = Some 880
   \<and> findDistanceMM sample_settings far_ball (BALL_SIZE_MM sample_settings) = Some 880
   \<and> findDistanceMM sample_settings (far_ball\<lparr>b_w := 0.5\<rparr>) (BALL_SIZE_MM sample_settings)
       = Some 125
   \<and> findDistanceMM sample_settings (far_ball\<lparr>b_w := 0.9\<rparr>) (BALL_SIZE_MM sample_settings)
       = Some 20"
  using findDistanceMM_bands [of far_ball sample_settings "BALL_SIZE_MM sample_settings"]
    findDistanceMM_bands [of "far_ball\<lparr>b_w := 0.5\<rparr>" sample_settings
      "BALL_SIZE_MM sample_settings"]
    findDistanceMM_bands [of "far_ball\<lparr>b_w := 0.9\<rparr>" sample_settings
      "BALL_SIZE_MM sample_settings"]
  by (simp add: sample_settings_def far_ball_def Math_round_def)

text \<open>
  Claim C8, as stated, asks for a strictly larger angle whenever the horizontal centre is
  strictly larger. Rounding to whole degrees prevents that: with a field of view of 64
  degrees the centres 0.5 and 0.51 both give the angle 0.
\<close>

theorem findAngle_strict_counterexample:
  "b_x \<lparr>label = ''red_ball'', score = 0.9, b_x = 0.45, b_y = 0.3, b_w = 0.1, b_h = 0.1\<rparr>
     + b_w \<lparr>label = ''red_ball'', score = 0.9, b_x = 0.45, b_y = 0.3, b_w = 0.1, b_h = 0.1\<rparr> / 2
   < b_x \<lparr>label = ''red_ball'', score = 0.9, b_x = 0.46, b_y = 0.3, b_w = 0.1, b_h = 0.1\<rparr>
     + b_w \<lparr>label = ''red_ball'', score = 0.9, b_x = 0.46, b_y = 0.3, b_w = 0.1, b_h = 0.1\<rparr> / 2
   \<and> \<not> findAngle sample_settings
         \<lparr>label = ''red_ball'', score = 0.9, b_x = 0.45, b_y = 0.3, b_w = 0.1, b_h = 0.1\<rparr>
       < findAngle sample_settings
         \<lparr>label = ''red_ball'', score = 0.9, b_x = 0.46, b_y = 0.3, b_w = 0.1, b_h = 0.1\<rparr>"
  by (simp add: findAngle_def sample_settings_def Math_round_def)

text \<open>
  Claim C8, amended. For a non-negative field of view the angle estimator is monotonic in
  the horizontal centre \<open>x + w / 2\<close>: a strictly larger centre never gives a smaller
  angle, and it gives a strictly larger angle once the unrounded angles are at least one
  degree apart.
\<close>

theorem findAngle_mono:
  assumes fov: "0 \<le> H_FIELD_OF_VIEW (camera S)"
    and centre: "b_x b1 + b_w b1 / 2 < b_x b2 + b_w b2 / 2"
  shows "findAngle S b1 \<le> findAngle S b2
       \<and> (1 \<le> ((b_x b2 + b_w b2 / 2) - (b_x b1 + b_w b1 / 2))
                 * H_FIELD_OF_VIEW (camera S) * 0.75
            \<longrightarrow> findAngle S b1 < findAngle S b2)"
proof -
  define a1 where "a1 = (b_x b1 + b_w b1 / 2 - 0.5) * H_FIELD_OF_VIEW (camera S) * 0.75"
  define a2 where "a2 = (b_x b2 + b_w b2 / 2 - 0.5) * H_FIELD_OF_VIEW (camera S) * 0.75"
  have angles: "findAngle S b1 = Math_round a1" "findAngle S b2 = Math_round a2"
    by (simp_all add: findAngle_def a1_def a2_def Let_def)
  have diff: "a2 - a1 = ((b_x b2 + b_w b2 / 2) - (b_x b1 + b_w b1 / 2))
                          * H_FIELD_OF_VIEW (camera S) * 0.75"
    by (simp add: a1_def a2_def algebra_simps)
  have "0 \<le> ((b_x b2 + b_w b2 / 2) - (b_x b1 + b_w b1 / 2)) * H_FIELD_OF_VIEW (camera S)"
    using fov centre by (intro mult_nonneg_nonneg) simp_all
  then have "0 \<le> ((b_x b2 + b_w b2 / 2) - (b_x b1 + b_w b1 / 2))
                    * H_FIELD_OF_VIEW (camera S) * 0.75"
    by simp
  then have "0 \<le> a2 - a1"
    by (simp only: diff)
  then have "a1 \<le> a2"
    by simp
  then have weak: "Math_round a1 \<le> Math_round a2"
    by (rule Math_round_mono)
  have strict: "Math_round a1 < Math_round a2" if "1 \<le> a2 - a1"
  proof -
    have "Math_round a1 + 1 = Math_round (a1 + 1)"
      unfolding Math_round_def by linarith
    also have "\<dots> \<le> Math_round a2"
      using that by (intro Math_round_mono) simp
    finally show ?thesis by simp
  qed
  show ?thesis
    using weak strict diff by (simp add: angles)
qed

text \<open>Centres 0.3 and 0.7 with a field of view of 64 degrees: the angles are -10 and 10.\<close>

theorem findAngle_mono_witness:
  "findAngle sample_settings
     \<lparr>label = ''red_ball'', score = 0.9, b_x = 0.25, b_y = 0.3, b_w = 0.1, b_h = 0.1\<rparr>
   < findAngle sample_settings
     \<lparr>label = ''red_ball'', score = 0.9, b_x = 0.65, b_y = 0.3, b_w = 0.1, b_h = 0.1\<rparr>"
  using findAngle_mono [of sample_settings
     "\<lparr>label = ''red_ball'', score = 0.9, b_x = 0.25, b_y = 0.3, b_w = 0.1, b_h = 0.1\<rparr>"
     "\<lparr>label = ''red_ball'', score = 0.9, b_x = 0.65, b_y = 0.3, b_w = 0.1, b_h = 0.1\<rparr>"]
  by (simp add: sample_settings_def)

section \<open>Properties of the command history\<close>

lemma countGoals_loop_takeWhile:
  "i \<le> length h \<Longrightarrow>
   countGoals_loop h g i r = r + length (takeWhile (\<lambda>c. goal c = Some g) (rev (take i h)))"
proof (induction i arbitrary: r)
  case 0
  then show ?case by simp
next
  case (Suc i)
  then have "take (Suc i) h = take i h @ [h ! i]"
    by (simp add: take_Suc_conv_app_nth)
  with Suc show ?case by simp
qed

lemma countGoals_countConsecutive: "countGoals h g = countConsecutive h g"
  by (simp add: countGoals_def countConsecutive_def countGoals_loop_takeWhile)

lemma countGoals_pos_iff: "0 < countGoals h g \<longleftrightarrow> h \<noteq> [] \<and> goal (last h) = Some g"
  by (cases h rule: rev_cases) (simp_all add: countGoals_countConsecutive countConsecutive_def)

lemma goal_sent: "goal (sent g) = Some g"
  by (simp add: sent_def setGoal_def new_DriveMessage_def)

section \<open>Properties of the decision\<close>

lemmas command_defs =
  new_DriveMessage_def setModeAutomatic_def setGoal_def setGoalSeekBallTurn_def
  setGoalSeekBallMove_def setGoalSeekHomeTurn_def setGoalGo2Ball_def setGoalGo2Base_def
  setGoalCheck4Grip_def setGoalGameEnd_def setCorrelationID_def addAction_def setSpeed_def
  makeTurn_def turnRight_def drive_def gripperOpen_def gripperClose_def addBallCount_def
  sendSensorMessage_def

text \<open>
  The order of the objectives. For a message with a car state and a ball count, the
  outcome of \<open>nextMove\<close> is that of the return to base when the consecutive count of
  \<open>GO2BASE\<close> or of \<open>SEEK_HOME_TURN\<close> at the end of the history is positive; otherwise
  that of the search for a ball when fewer balls are carried than needed; otherwise the
  final command, tagged \<open>GAME_END\<close>. The outcome of the chosen routine may be an
  error, see below.
\<close>

lemma nextMove_objective_order:
  assumes "carState sensorMessage = Some cs"
    and "ballsCollected cs = Some n"
  shows "nextMove S driveSimulation h rnd response sensorMessage =
          (if 0 < countConsecutive h GO2BASE \<or> 0 < countConsecutive h SEEK_HOME_TURN
           then navigate2home S h rnd response sensorMessage
           else if n < BALLS_NEEDED S
           then navigate2ball S driveSimulation h rnd response sensorMessage
           else Inr \<lparr>mode = None, goal = Some GAME_END,
                     correlationID = timestampMs sensorMessage,
                     actions = [SendSensorMessage]\<rparr>)"
  using assms
  by (simp add: nextMove_def countGoals_countConsecutive gameOver_def command_defs)

section \<open>The capture step and the empty history\<close>

text \<open>
  With a command in the history, a ball within the capture angle and distance gives
  either the bare \<open>GO2BASE\<close> command (the last command checked the grip) or the grip
  check itself: close the gripper, half the maximum speed, 250 mm backwards.
\<close>

lemma calculateBallDirections_capture:
  assumes "findDistanceMM S bBox (BALL_SIZE_MM S) = Some distance"
    and "\<bar>findAngle S bBox\<bar> \<le> 10" and "distance \<le> 70" and "h \<noteq> []"
  shows "calculateBallDirections S h rnd bBox obstacleFlag response =
           Inr (if goal (last h) = Some CHECK_GRIP
                then \<lparr>mode = Some AUTOMATIC_MODE, goal = Some GO2BASE, correlationID = None,
                      actions = []\<rparr>
                else \<lparr>mode = Some AUTOMATIC_MODE, goal = Some CHECK_GRIP, correlationID = None,
                      actions = [GripperClose, SetSpeed (MAX_SPEED S / 2), Drive (- 250)]\<rparr>)"
  using assms by (simp add: calculateBallDirections_def command_defs)

text \<open>
  The read of \<^verbatim>\<open>commandHistory[commandHistory.length - 1].goal\<close> raises exactly
  when the history is empty and the ball is within the capture angle and distance.
\<close>

lemma calculateBallDirections_TypeError_iff:
  "calculateBallDirections S h rnd bBox obstacleFlag response = Inl TypeError \<longleftrightarrow>
     h = [] \<and> (\<exists>distance. findDistanceMM S bBox (BALL_SIZE_MM S) = Some distance
                  \<and> \<bar>findAngle S bBox\<bar> \<le> 10 \<and> distance \<le> 70)"
  by (simp add: calculateBallDirections_def Let_def split: option.splits)

lemma calculateHomeDirections_no_TypeError:
  "calculateHomeDirections S h rnd bBox obstacleFlag response \<noteq> Inl TypeError"
  by (simp add: calculateHomeDirections_def Let_def split: option.splits)

lemma calculateHomeDirections_Inl:
  "calculateHomeDirections S h rnd bBox obstacleFlag response = Inl e \<Longrightarrow> e = NotFinite"
  using calculateHomeDirections_no_TypeError [of S h rnd bBox obstacleFlag response]
  by (cases e) simp_all

lemma calculateBallDirections_Inl:
  "h \<noteq> [] \<Longrightarrow> calculateBallDirections S h rnd bBox obstacleFlag response = Inl e \<Longrightarrow>
   e = NotFinite"
  using calculateBallDirections_TypeError_iff [of S h rnd bBox obstacleFlag response]
  by (cases e) simp_all

lemma navigate2home_no_TypeError:
  "carState sensorMessage = Some cs \<Longrightarrow>
   navigate2home S h rnd response sensorMessage \<noteq> Inl TypeError"
  by (auto simp add: navigate2home_def Let_def split: option.splits sum.splits
      dest: calculateHomeDirections_Inl)

lemma navigate2ball_no_TypeError:
  "carState sensorMessage = Some cs \<Longrightarrow> h \<noteq> [] \<Longrightarrow>
   navigate2ball S driveSimulation h rnd response sensorMessage \<noteq> Inl TypeError"
  by (auto simp add: navigate2ball_def Let_def split: option.splits sum.splits
      dest: calculateBallDirections_Inl)

text \<open>
  With a car state in the message and a command in the history, \<open>nextMove\<close> raises
  nothing.
\<close>

lemma nextMove_no_TypeError:
  "carState sensorMessage = Some cs \<Longrightarrow> h \<noteq> [] \<Longrightarrow>
   nextMove S driveSimulation h rnd response sensorMessage \<noteq> Inl TypeError"
  by (simp add: nextMove_def navigate2ball_no_TypeError navigate2home_no_TypeError)

text \<open>
  Claim C2 asks, for a ball within the capture angle and distance, for the \<open>GO2BASE\<close>
  command when the last command of the history is tagged \<open>CHECK_GRIP\<close> and for the
  grip check otherwise. On the empty history there is no last command, the grip check is
  due, and the program raises a \<open>TypeError\<close> instead: the near ball of the sample is
  seen at angle 0 and distance 20 mm.
\<close>

theorem calculateBallDirections_empty_history:
  "\<bar>findAngle sample_settings near_ball\<bar> \<le> 10
   \<and> findDistanceMM sample_settings near_ball (BALL_SIZE_MM sample_settings) = Some 20
   \<and> calculateBallDirections sample_settings [] (0, 0) near_ball False \<lparr>bBoxes = [near_ball]\<rparr>
       = Inl TypeError"
  by (simp add: calculateBallDirections_def findAngle_def findDistanceMM_def pinholeMM_def
      Math_round_def sample_settings_def near_ball_def)

text \<open>
  Claim C3 asks that \<open>nextMove\<close> yields a command for every message with a complete
  car state and every history, the empty one included. For the sample message, the near
  ball and the empty history it raises a \<open>TypeError\<close>.
\<close>

theorem nextMove_empty_history_TypeError:
  "nextMove sample_settings no_simulation [] (0, 0) \<lparr>bBoxes = [near_ball]\<rparr> sample_message
     = Inl TypeError"
  by (simp add: nextMove_def navigate2ball_def calculateBallDirections_def findAngle_def
      findDistanceMM_def pinholeMM_def Math_round_def sample_settings_def near_ball_def
      sample_message_def no_simulation_def countGoals_def findNearestObject_def
      likely_false_positive_def right_object_type_def js_string_def indexOf_def
      toLowerCase_def toLowerCase_char_def HIGH_BALL_SCORE_def HIGH_BALL_TOP_BOUND_def)

text \<open>
  With a car state in the message and a command in the history, \<open>nextMove\<close> yields
  a command on every input on which the distance is a real number.
\<close>

lemma nextMove_produces:
  assumes "carState sensorMessage = Some cs" and "h \<noteq> []"
    and "nextMove S driveSimulation h rnd response sensorMessage \<noteq> Inl NotFinite"
  shows "\<exists>command. nextMove S driveSimulation h rnd response sensorMessage = Inr command"
proof (cases "nextMove S driveSimulation h rnd response sensorMessage")
  case (Inl e)
  with nextMove_no_TypeError [OF assms(1,2), of S driveSimulation rnd response] assms(3)
  show ?thesis
    by (cases e) simp_all
next
  case (Inr command)
  then show ?thesis
    by blast
qed

text \<open>
  Claim C1 asks that \<open>nextMove\<close> produces a command of the chosen objective for every
  message with a complete car state and every history. For the sample message and the
  empty history both counts are 0 and fewer balls are carried than needed, so the
  objective is the search for a ball; with the near ball in view no command is produced,
  the outcome is the \<open>TypeError\<close> of the capture step.
\<close>

theorem nextMove_ball_objective_empty_history:
  "carState sample_message
     = Some \<lparr>ballsCollected = Some 0, color = Some ''red'', obstacleFound = None\<rparr>
   \<and> countConsecutive [] GO2BASE = 0
   \<and> countConsecutive [] SEEK_HOME_TURN = 0
   \<and> 0 < BALLS_NEEDED sample_settings
   \<and> nextMove sample_settings no_simulation [] (0, 0) \<lparr>bBoxes = [near_ball]\<rparr> sample_message
       = Inl TypeError"
  by (simp add: nextMove_def navigate2ball_def calculateBallDirections_def findAngle_def
      findDistanceMM_def pinholeMM_def Math_round_def sample_settings_def near_ball_def
      sample_message_def no_simulation_def countGoals_def countConsecutive_def
      findNearestObject_def likely_false_positive_def right_object_type_def js_string_def
      indexOf_def toLowerCase_def toLowerCase_char_def HIGH_BALL_SCORE_def
      HIGH_BALL_TOP_BOUND_def)

section \<open>Properties of the selection\<close>

text \<open>
  The invariant of the selection loop: after the indices below \<open>i\<close> either the
  candidate is unchanged and no selectable detection among them exceeds \<open>foundSize\<close>,
  or the candidate is the detection at some index \<open>k < i\<close>, which exceeds
  \<open>foundSize\<close>, is maximal among the selectable ones, and is strictly larger than
  every selectable one at an index between \<open>k\<close> and \<open>i\<close>.
\<close>

lemma findNearestObject_loop_inv:
  assumes "i \<le> length boxes"
  shows "(findNearestObject_loop S t boxes i foundSize nearest = nearest
          \<and> (\<forall>j<i. selectable S t (boxes ! j) \<longrightarrow> weighted_size (boxes ! j) \<le> foundSize))
       \<or> (\<exists>k<i. findNearestObject_loop S t boxes i foundSize nearest = Some (boxes ! k)
            \<and> selectable S t (boxes ! k) \<and> foundSize < weighted_size (boxes ! k)
            \<and> (\<forall>j<i. selectable S t (boxes ! j) \<longrightarrow>
                   weighted_size (boxes ! j) \<le> weighted_size (boxes ! k))
            \<and> (\<forall>j. k < j \<and> j < i \<and> selectable S t (boxes ! j) \<longrightarrow>
                   weighted_size (boxes ! j) < weighted_size (boxes ! k)))"
  using assms
proof (induction i arbitrary: foundSize nearest)
  case 0
  then show ?case by simp
next
  case (Suc i)
  define sel where "sel j \<longleftrightarrow> selectable S t (boxes ! j)" for j
  define ws where "ws j = weighted_size (boxes ! j)" for j
  define run where "run n fs no = findNearestObject_loop S t boxes n fs no" for n fs no
  have IH: "(run i fs no = no \<and> (\<forall>j<i. sel j \<longrightarrow> ws j \<le> fs))
          \<or> (\<exists>k<i. run i fs no = Some (boxes ! k) \<and> sel k \<and> fs < ws k
                \<and> (\<forall>j<i. sel j \<longrightarrow> ws j \<le> ws k)
                \<and> (\<forall>j. k < j \<and> j < i \<and> sel j \<longrightarrow> ws j < ws k))" for fs no
    using Suc.IH [OF Suc_leD [OF Suc.prems]] unfolding sel_def ws_def run_def .
  have step: "run (Suc i) foundSize nearest =
      (if sel i \<and> foundSize < ws i then run i (ws i) (Some (boxes ! i))
       else run i foundSize nearest)"
    by (simp add: run_def sel_def ws_def selectable_def weighted_size_def Let_def)
  have goal: "(run (Suc i) foundSize nearest = nearest
                 \<and> (\<forall>j<Suc i. sel j \<longrightarrow> ws j \<le> foundSize))
          \<or> (\<exists>k<Suc i. run (Suc i) foundSize nearest = Some (boxes ! k) \<and> sel k
                \<and> foundSize < ws k
                \<and> (\<forall>j<Suc i. sel j \<longrightarrow> ws j \<le> ws k)
                \<and> (\<forall>j. k < j \<and> j < Suc i \<and> sel j \<longrightarrow> ws j < ws k))"
  proof (cases "sel i \<and> foundSize < ws i")
    case True
    then have eq: "run (Suc i) foundSize nearest = run i (ws i) (Some (boxes ! i))"
      unfolding step by (rule if_P)
    from IH [of "ws i" "Some (boxes ! i)"] show ?thesis
    proof (elim disjE conjE exE)
      assume r: "run i (ws i) (Some (boxes ! i)) = Some (boxes ! i)"
        and bound: "\<forall>j<i. sel j \<longrightarrow> ws j \<le> ws i"
      have "\<forall>j<Suc i. sel j \<longrightarrow> ws j \<le> ws i"
        using bound by (simp add: less_Suc_eq)
      moreover have "\<forall>j. i < j \<and> j < Suc i \<and> sel j \<longrightarrow> ws j < ws i"
        by simp
      ultimately show ?thesis
        using True r eq by (intro disjI2 exI [of _ i]) simp
    next
      fix k
      assume k: "k < i" and r: "run i (ws i) (Some (boxes ! i)) = Some (boxes ! k)"
        and selk: "sel k" and gt: "ws i < ws k"
        and bound: "\<forall>j<i. sel j \<longrightarrow> ws j \<le> ws k"
        and later: "\<forall>j. k < j \<and> j < i \<and> sel j \<longrightarrow> ws j < ws k"
      have "\<forall>j<Suc i. sel j \<longrightarrow> ws j \<le> ws k"
        using bound gt by (auto simp add: less_Suc_eq)
      moreover have "\<forall>j. k < j \<and> j < Suc i \<and> sel j \<longrightarrow> ws j < ws k"
        using later gt by (auto simp add: less_Suc_eq)
      moreover have "foundSize < ws k"
        using True gt by simp
      ultimately show ?thesis
        using k r selk eq by (intro disjI2 exI [of _ k]) simp
    qed
  next
    case False
    then have eq: "run (Suc i) foundSize nearest = run i foundSize nearest"
      unfolding step by (rule if_not_P)
    from False have here: "sel i \<longrightarrow> ws i \<le> foundSize"
      by auto
    from IH [of foundSize nearest] show ?thesis
    proof (elim disjE conjE exE)
      assume r: "run i foundSize nearest = nearest"
        and bound: "\<forall>j<i. sel j \<longrightarrow> ws j \<le> foundSize"
      have "\<forall>j<Suc i. sel j \<longrightarrow> ws j \<le> foundSize"
        using bound here by (simp add: less_Suc_eq)
      then show ?thesis
        using r eq by (intro disjI1) simp
    next
      fix k
      assume k: "k < i" and r: "run i foundSize nearest = Some (boxes ! k)"
        and selk: "sel k" and gt: "foundSize < ws k"
        and bound: "\<forall>j<i. sel j \<longrightarrow> ws j \<le> ws k"
        and later: "\<forall>j. k < j \<and> j < i \<and> sel j \<longrightarrow> ws j < ws k"
      have "\<forall>j<Suc i. sel j \<longrightarrow> ws j \<le> ws k"
        using bound gt here by (auto simp add: less_Suc_eq)
      moreover have "\<forall>j. k < j \<and> j < Suc i \<and> sel j \<longrightarrow> ws j < ws k"
        using later gt here by (auto simp add: less_Suc_eq)
      ultimately show ?thesis
        using k r selk gt eq by (intro disjI2 exI [of _ k]) simp
    qed
  qed
  then show ?case
    unfolding sel_def ws_def run_def .
qed

text \<open>
  Claim C4, amended. For every detection list and target label, the selection returns
  nothing exactly when no selectable detection (one that passes the false-positive test
  and carries the label) has a positive value \<open>max w h * score\<close>. Otherwise it returns
  a selectable detection of positive value that maximizes \<open>max w h * score\<close> among the
  selectable ones, and among those of maximal value the one latest in the list: every
  selectable detection after it has a strictly smaller value.
\<close>

theorem findNearestObject_selects:
  "(findNearestObject S t response = None \<longleftrightarrow>
      (\<forall>obj \<in> set (bBoxes response). selectable S t obj \<longrightarrow> weighted_size obj \<le> 0))
   \<and> (\<forall>obj. findNearestObject S t response = Some obj \<longrightarrow>
        (\<exists>k < length (bBoxes response).
            bBoxes response ! k = obj \<and> selectable S t obj \<and> 0 < weighted_size obj
          \<and> (\<forall>other \<in> set (bBoxes response).
                selectable S t other \<longrightarrow> weighted_size other \<le> weighted_size obj)
          \<and> (\<forall>j. k < j \<and> j < length (bBoxes response)
                   \<and> selectable S t (bBoxes response ! j) \<longrightarrow>
                 weighted_size (bBoxes response ! j) < weighted_size obj)))"
proof -
  define boxes where "boxes = bBoxes response"
  define result where "result = findNearestObject S t response"
  define sel where "sel obj \<longleftrightarrow> selectable S t obj" for obj
  have result: "result = findNearestObject_loop S t boxes (length boxes) 0 None"
    by (simp add: result_def boxes_def findNearestObject_def)
  have inv: "(result = None
          \<and> (\<forall>j<length boxes. sel (boxes ! j) \<longrightarrow> weighted_size (boxes ! j) \<le> 0))
       \<or> (\<exists>k<length boxes. result = Some (boxes ! k)
            \<and> sel (boxes ! k) \<and> 0 < weighted_size (boxes ! k)
            \<and> (\<forall>j<length boxes. sel (boxes ! j) \<longrightarrow>
                   weighted_size (boxes ! j) \<le> weighted_size (boxes ! k))
            \<and> (\<forall>j. k < j \<and> j < length boxes \<and> sel (boxes ! j) \<longrightarrow>
                   weighted_size (boxes ! j) < weighted_size (boxes ! k)))"
    unfolding result sel_def by (rule findNearestObject_loop_inv) simp
  have "(result = None \<longleftrightarrow>
      (\<forall>j<length boxes. sel (boxes ! j) \<longrightarrow> weighted_size (boxes ! j) \<le> 0))
   \<and> (\<forall>obj. result = Some obj \<longrightarrow>
        (\<exists>k < length boxes.
            boxes ! k = obj \<and> sel obj \<and> 0 < weighted_size obj
          \<and> (\<forall>j<length boxes. sel (boxes ! j) \<longrightarrow> weighted_size (boxes ! j) \<le> weighted_size obj)
          \<and> (\<forall>j. k < j \<and> j < length boxes \<and> sel (boxes ! j) \<longrightarrow>
                 weighted_size (boxes ! j) < weighted_size obj)))"
    using inv
  proof (elim disjE conjE exE)
    assume "result = None"
      and "\<forall>j<length boxes. sel (boxes ! j) \<longrightarrow> weighted_size (boxes ! j) \<le> 0"
    then show ?thesis
      by simp
  next
    fix k
    assume k: "k < length boxes" and r: "result = Some (boxes ! k)"
      and selk: "sel (boxes ! k)" and pos: "0 < weighted_size (boxes ! k)"
      and bound: "\<forall>j<length boxes. sel (boxes ! j) \<longrightarrow>
                    weighted_size (boxes ! j) \<le> weighted_size (boxes ! k)"
      and later: "\<forall>j. k < j \<and> j < length boxes \<and> sel (boxes ! j) \<longrightarrow>
                    weighted_size (boxes ! j) < weighted_size (boxes ! k)"
    have "\<not> (\<forall>j<length boxes. sel (boxes ! j) \<longrightarrow> weighted_size (boxes ! j) \<le> 0)"
    proof
      assume "\<forall>j<length boxes. sel (boxes ! j) \<longrightarrow> weighted_size (boxes ! j) \<le> 0"
      with k selk have "weighted_size (boxes ! k) \<le> 0"
        by blast
      with pos show False
        by simp
    qed
    moreover have "\<exists>k' < length boxes.
            boxes ! k' = boxes ! k \<and> sel (boxes ! k) \<and> 0 < weighted_size (boxes ! k)
          \<and> (\<forall>j<length boxes.
                sel (boxes ! j) \<longrightarrow> weighted_size (boxes ! j) \<le> weighted_size (boxes ! k))
          \<and> (\<forall>j. k' < j \<and> j < length boxes \<and> sel (boxes ! j) \<longrightarrow>
                 weighted_size (boxes ! j) < weighted_size (boxes ! k))"
      using k selk pos bound later by (intro exI [of _ k] conjI refl)
    ultimately show ?thesis
      unfolding r by simp
  qed
  then show ?thesis
    unfolding result_def boxes_def sel_def all_set_conv_all_nth .
qed

lemma findNearestObject_loop_Suc:
  "findNearestObject_loop S t boxes (Suc i) foundSize nearest =
     (if selectable S t (boxes ! i) \<and> foundSize < weighted_size (boxes ! i)
      then findNearestObject_loop S t boxes i (weighted_size (boxes ! i)) (Some (boxes ! i))
      else findNearestObject_loop S t boxes i foundSize nearest)"
  by (simp add: selectable_def weighted_size_def Let_def)

lemma toLowerCase_red_ball: "toLowerCase ''red_ball'' = ''red_ball''"
  by (simp add: toLowerCase_def toLowerCase_char_def)

lemma toLowerCase_ball: "toLowerCase ''_ball'' = ''_ball''"
  by (simp add: toLowerCase_def toLowerCase_char_def)

lemma toLowerCase_blue_ball: "toLowerCase ''blue_ball'' = ''blue_ball''"
  by (simp add: toLowerCase_def toLowerCase_char_def)

lemma selectable_red_ball:
  "label obj = ''red_ball'' \<Longrightarrow> score obj = 0.9 \<Longrightarrow>
   selectable sample_settings ''red_ball'' obj"
  by (simp add: selectable_def likely_false_positive_def right_object_type_def
      toLowerCase_red_ball toLowerCase_ball indexOf_def HIGH_BALL_SCORE_def sample_settings_def)

lemma not_selectable_blue_ball:
  "label obj = ''blue_ball'' \<Longrightarrow> \<not> selectable sample_settings ''red_ball'' obj"
  by (simp add: selectable_def right_object_type_def toLowerCase_red_ball
      toLowerCase_blue_ball indexOf_def)

text \<open>
  A far ball, a near ball and a larger blue ball: the near red ball is selected.
\<close>

theorem findNearestObject_selects_witness:
  "findNearestObject sample_settings ''red_ball''
     \<lparr>bBoxes = [far_ball, near_ball, near_ball\<lparr>label := ''blue_ball'', b_w := 0.9\<rparr>]\<rparr>
     = Some near_ball
   \<and> weighted_size far_ball \<le> weighted_size near_ball"
  using findNearestObject_selects [of sample_settings "''red_ball''"
     "\<lparr>bBoxes = [far_ball, near_ball, near_ball\<lparr>label := ''blue_ball'', b_w := 0.9\<rparr>]\<rparr>"]
  by (simp add: findNearestObject_def findNearestObject_loop_Suc selectable_red_ball
      not_selectable_blue_ball weighted_size_def near_ball_def far_ball_def
      del: findNearestObject_loop.simps(2))

text \<open>
  Claim C4, as stated, lets the earliest of several detections of equal value win and
  always returns a maximizing detection. The loop runs from the last index down and
  replaces its candidate only by a strictly larger value, starting from the value 0: of
  two equal balls the second of the list is returned, and a selectable detection of
  value 0 is not returned at all.
\<close>

theorem findNearestObject_tie_counterexample:
  "selectable sample_settings ''red_ball'' far_ball
   \<and> selectable sample_settings ''red_ball'' (far_ball\<lparr>b_x := 0.2\<rparr>)
   \<and> weighted_size far_ball = weighted_size (far_ball\<lparr>b_x := 0.2\<rparr>)
   \<and> findNearestObject sample_settings ''red_ball''
        \<lparr>bBoxes = [far_ball, far_ball\<lparr>b_x := 0.2\<rparr>]\<rparr> = Some (far_ball\<lparr>b_x := 0.2\<rparr>)
   \<and> findNearestObject sample_settings ''red_ball''
        \<lparr>bBoxes = [far_ball, far_ball\<lparr>b_x := 0.2\<rparr>]\<rparr> \<noteq> Some far_ball
   \<and> selectable sample_settings ''red_ball'' (far_ball\<lparr>b_w := 0, b_h := 0\<rparr>)
   \<and> findNearestObject sample_settings ''red_ball''
        \<lparr>bBoxes = [far_ball\<lparr>b_w := 0, b_h := 0\<rparr>]\<rparr> = None"
  by (simp add: findNearestObject_def findNearestObject_loop_Suc selectable_red_ball
      weighted_size_def far_ball_def del: findNearestObject_loop.simps(2))

lemma indexOf_from_nonneg_iff:
  "0 \<le> indexOf_from str searchString i \<longleftrightarrow> sublist searchString str"
  by (induction str arbitrary: i) (simp_all add: sublist_Cons_right)

lemma indexOf_nonneg_iff:
  "0 \<le> indexOf str searchString \<longleftrightarrow> (\<exists>ps ss. str = ps @ searchString @ ss)"
  by (simp add: indexOf_def indexOf_from_nonneg_iff sublist_def)

text \<open>
  The selection returns either nothing, and then no selectable detection has a positive
  value, or a selectable detection of the list with a positive value.
\<close>

lemma findNearestObject_None_or_selectable:
  "(findNearestObject S t response = None
      \<and> (\<forall>obj \<in> set (bBoxes response). selectable S t obj \<longrightarrow> weighted_size obj \<le> 0))
   \<or> (\<exists>obj \<in> set (bBoxes response).
         findNearestObject S t response = Some obj \<and> selectable S t obj
         \<and> 0 < weighted_size obj)"
proof -
  define boxes where "boxes = bBoxes response"
  define result where "result = findNearestObject S t response"
  have result: "result = findNearestObject_loop S t boxes (length boxes) 0 None"
    by (simp add: result_def boxes_def findNearestObject_def)
  have inv: "(result = None
          \<and> (\<forall>j<length boxes. selectable S t (boxes ! j) \<longrightarrow> weighted_size (boxes ! j) \<le> 0))
       \<or> (\<exists>k<length boxes. result = Some (boxes ! k)
            \<and> selectable S t (boxes ! k) \<and> 0 < weighted_size (boxes ! k)
            \<and> (\<forall>j<length boxes. selectable S t (boxes ! j) \<longrightarrow>
                   weighted_size (boxes ! j) \<le> weighted_size (boxes ! k))
            \<and> (\<forall>j. k < j \<and> j < length boxes \<and> selectable S t (boxes ! j) \<longrightarrow>
                   weighted_size (boxes ! j) < weighted_size (boxes ! k)))"
    unfolding result by (rule findNearestObject_loop_inv) simp
  have "(result = None
      \<and> (\<forall>obj \<in> set boxes. selectable S t obj \<longrightarrow> weighted_size obj \<le> 0))
   \<or> (\<exists>obj \<in> set boxes. result = Some obj \<and> selectable S t obj \<and> 0 < weighted_size obj)"
    using inv
  proof (elim disjE conjE exE)
    assume "result = None"
      and "\<forall>j<length boxes. selectable S t (boxes ! j) \<longrightarrow> weighted_size (boxes ! j) \<le> 0"
    then show ?thesis
      by (simp add: all_set_conv_all_nth)
  next
    fix k
    assume k: "k < length boxes" and r: "result = Some (boxes ! k)"
      and selk: "selectable S t (boxes ! k)" and pos: "0 < weighted_size (boxes ! k)"
    from k have "boxes ! k \<in> set boxes"
      by simp
    with r selk pos show ?thesis
      by (intro disjI2 bexI [of _ "boxes ! k"] conjI)
  qed
  then show ?thesis
    unfolding result_def boxes_def .
qed

definition contains :: "string \<Rightarrow> string \<Rightarrow> bool" where
  "contains str part \<longleftrightarrow> (\<exists>ps ss. str = ps @ part @ ss)"

text \<open>
  Claim C10. A detection carries the wanted label exactly when its lower-cased label
  contains the lower-cased target label as a substring; equality is not required. The
  false-positive test likewise applies to every detection whose lower-cased label
  contains the lower-cased ball suffix (with a score below 0.5 and a top edge above 0.2).
  The selection goes by these two tests: whatever it returns is a detection of the list
  whose label contains the target and to which the false-positive test does not apply,
  and it returns a detection exactly when the list holds such a detection of positive
  value; a single such detection is the one returned.
\<close>

theorem label_matching_is_containment:
  "(right_object_type objectType obj \<longleftrightarrow>
      (\<exists>ps ss. toLowerCase (label obj) = ps @ toLowerCase objectType @ ss))
   \<and> (likely_false_positive S obj \<longleftrightarrow>
      (\<exists>ps ss. toLowerCase (label obj) = ps @ toLowerCase (BALL_LABEL_SUFFIX S) @ ss)
      \<and> score obj < 0.5 \<and> b_y obj < 0.2)
   \<and> ((\<exists>ps ss. toLowerCase (label obj) = ps @ toLowerCase objectType @ ss)
       \<and> \<not> likely_false_positive S obj \<and> 0 < max (b_w obj) (b_h obj) * score obj \<longrightarrow>
      findNearestObject S objectType \<lparr>bBoxes = [obj]\<rparr> = Some obj)
   \<and> (\<forall>found. findNearestObject S objectType response = Some found \<longrightarrow>
        found \<in> set (bBoxes response)
        \<and> (\<exists>ps ss. toLowerCase (label found) = ps @ toLowerCase objectType @ ss)
        \<and> \<not> ((\<exists>ps ss. toLowerCase (label found)
                            = ps @ toLowerCase (BALL_LABEL_SUFFIX S) @ ss)
             \<and> score found < 0.5 \<and> b_y found < 0.2))
   \<and> (findNearestObject S objectType response \<noteq> None \<longleftrightarrow>
        (\<exists>other \<in> set (bBoxes response).
           (\<exists>ps ss. toLowerCase (label other) = ps @ toLowerCase objectType @ ss)
           \<and> \<not> ((\<exists>ps ss. toLowerCase (label other)
                               = ps @ toLowerCase (BALL_LABEL_SUFFIX S) @ ss)
                \<and> score other < 0.5 \<and> b_y other < 0.2)
           \<and> 0 < max (b_w other) (b_h other) * score other))"
proof -
  have match: "right_object_type objectType b \<longleftrightarrow>
      (\<exists>ps ss. toLowerCase (label b) = ps @ toLowerCase objectType @ ss)" for b
    by (simp add: right_object_type_def indexOf_nonneg_iff)
  have filter: "likely_false_positive S b \<longleftrightarrow>
      (\<exists>ps ss. toLowerCase (label b) = ps @ toLowerCase (BALL_LABEL_SUFFIX S) @ ss)
      \<and> score b < 0.5 \<and> b_y b < 0.2" for b
    by (simp add: likely_false_positive_def indexOf_nonneg_iff HIGH_BALL_SCORE_def
        HIGH_BALL_TOP_BOUND_def)
  have sel: "selectable S objectType b \<longleftrightarrow>
      (\<exists>ps ss. toLowerCase (label b) = ps @ toLowerCase objectType @ ss)
      \<and> \<not> ((\<exists>ps ss. toLowerCase (label b) = ps @ toLowerCase (BALL_LABEL_SUFFIX S) @ ss)
           \<and> score b < 0.5 \<and> b_y b < 0.2)" for b
    unfolding selectable_def match filter by blast
  have single: "findNearestObject S objectType \<lparr>bBoxes = [obj]\<rparr> = Some obj"
    if "\<exists>ps ss. toLowerCase (label obj) = ps @ toLowerCase objectType @ ss"
      and "\<not> likely_false_positive S obj" and "0 < max (b_w obj) (b_h obj) * score obj"
    using that by (simp add: findNearestObject_def match Let_def)
  note cases = findNearestObject_None_or_selectable [of S objectType response]
  have found: "found \<in> set (bBoxes response) \<and> selectable S objectType found"
    if "findNearestObject S objectType response = Some found" for found
    using cases that by auto
  have nonempty: "findNearestObject S objectType response \<noteq> None \<longleftrightarrow>
      (\<exists>other \<in> set (bBoxes response).
         selectable S objectType other \<and> 0 < weighted_size other)"
    using cases by (auto simp add: not_less [symmetric] simp del: not_less)
  show ?thesis
    using match [of obj] filter [of obj] single found nonempty
    unfolding sel weighted_size_def by blast
qed

lemma toLowerCase_Dark_Red_Ball: "toLowerCase ''Dark_Red_Ball'' = ''dark_red_ball''"
  by (simp add: toLowerCase_def toLowerCase_char_def)

text \<open>
  Three detections for the target \<^verbatim>\<open>red_ball\<close>: a large \<^verbatim>\<open>Dark_Red_Ball\<close> high
  in the image with score 0.4, to which the false-positive test applies; a large
  \<^verbatim>\<open>blue_ball\<close>, whose label lacks the target; and a small \<^verbatim>\<open>Dark_Red_Ball\<close>,
  whose label differs from the target and contains it. The last one is selected.
\<close>

theorem label_matching_is_containment_witness:
  "label (far_ball\<lparr>label := ''Dark_Red_Ball''\<rparr>) \<noteq> ''red_ball''
   \<and> toLowerCase (label (far_ball\<lparr>label := ''Dark_Red_Ball''\<rparr>))
       = ''dark_'' @ toLowerCase ''red_ball'' @ []
   \<and> likely_false_positive sample_settings
        (far_ball\<lparr>label := ''Dark_Red_Ball'', score := 0.4, b_y := 0.1, b_w := 0.5\<rparr>)
   \<and> \<not> right_object_type ''red_ball'' (near_ball\<lparr>label := ''blue_ball''\<rparr>)
   \<and> findNearestObject sample_settings ''red_ball''
        \<lparr>bBoxes = [far_ball\<lparr>label := ''Dark_Red_Ball'', score := 0.4, b_y := 0.1, b_w := 0.5\<rparr>,
                   near_ball\<lparr>label := ''blue_ball''\<rparr>,
                   far_ball\<lparr>label := ''Dark_Red_Ball''\<rparr>]\<rparr>
       = Some (far_ball\<lparr>label := ''Dark_Red_Ball''\<rparr>)"
proof -
  let ?high = "far_ball\<lparr>label := ''Dark_Red_Ball'', score := 0.4, b_y := 0.1, b_w := 0.5\<rparr>"
  let ?blue = "near_ball\<lparr>label := ''blue_ball''\<rparr>"
  let ?dark = "far_ball\<lparr>label := ''Dark_Red_Ball''\<rparr>"
  let ?response = "\<lparr>bBoxes = [?high, ?blue, ?dark]\<rparr>"
  note containment = label_matching_is_containment [of "''red_ball''" ?dark sample_settings ?response]
  have different: "label ?dark \<noteq> ''red_ball''"
    by simp
  have lower: "toLowerCase (label ?dark) = ''dark_'' @ toLowerCase ''red_ball'' @ []"
    by (simp add: toLowerCase_Dark_Red_Ball toLowerCase_red_ball)
  have high: "likely_false_positive sample_settings ?high"
    by (simp add: likely_false_positive_def toLowerCase_Dark_Red_Ball toLowerCase_ball
        indexOf_def HIGH_BALL_SCORE_def HIGH_BALL_TOP_BOUND_def sample_settings_def)
  have blue: "\<not> right_object_type ''red_ball'' ?blue"
    by (simp add: right_object_type_def toLowerCase_blue_ball toLowerCase_red_ball indexOf_def)
  have part: "\<exists>ps ss. toLowerCase (label ?dark) = ps @ toLowerCase ''red_ball'' @ ss"
    by (rule exI [of _ "''dark_''"], rule exI [of _ "[]"], rule lower)
  have confident: "\<not> score ?dark < 0.5"
    by (simp add: far_ball_def)
  have positive: "0 < max (b_w ?dark) (b_h ?dark) * score ?dark"
    by (simp add: far_ball_def)
  have dark: "(\<exists>ps ss. toLowerCase (label ?dark) = ps @ toLowerCase ''red_ball'' @ ss)
      \<and> \<not> ((\<exists>ps ss. toLowerCase (label ?dark)
                         = ps @ toLowerCase (BALL_LABEL_SUFFIX sample_settings) @ ss)
           \<and> score ?dark < 0.5 \<and> b_y ?dark < 0.2)
      \<and> 0 < max (b_w ?dark) (b_h ?dark) * score ?dark"
    using part confident positive by blast
  have "?dark \<in> set (bBoxes ?response)"
    by simp
  with containment dark have "findNearestObject sample_settings ''red_ball'' ?response \<noteq> None"
    by blast
  then obtain found where found: "findNearestObject sample_settings ''red_ball'' ?response
      = Some found"
    by blast
  with containment have props: "found \<in> set (bBoxes ?response)"
      "\<exists>ps ss. toLowerCase (label found) = ps @ toLowerCase ''red_ball'' @ ss"
      "\<not> ((\<exists>ps ss. toLowerCase (label found)
                         = ps @ toLowerCase (BALL_LABEL_SUFFIX sample_settings) @ ss)
           \<and> score found < 0.5 \<and> b_y found < 0.2)"
    by blast+
  from high have high': "(\<exists>ps ss. toLowerCase (label ?high)
                         = ps @ toLowerCase (BALL_LABEL_SUFFIX sample_settings) @ ss)
           \<and> score ?high < 0.5 \<and> b_y ?high < 0.2"
    using label_matching_is_containment [of "''red_ball''" ?high sample_settings ?response]
    by blast
  from blue have blue': "\<not> (\<exists>ps ss. toLowerCase (label ?blue)
      = ps @ toLowerCase ''red_ball'' @ ss)"
    using label_matching_is_containment [of "''red_ball''" ?blue sample_settings ?response]
    by blast
  from props(1) have "found = ?high \<or> found = ?blue \<or> found = ?dark"
    by simp
  with props(2,3) high' blue' have "found = ?dark"
    by blast
  with found different lower high blue show ?thesis
    by simp
qed

section \<open>Properties of the search strategies\<close>

lemma countConsecutive_replicate: "countConsecutive (replicate n (sent g)) g = n"
  by (simp add: countConsecutive_def goal_sent)

text \<open>
  Claim C6, amended. While the consecutive count of the seek-turn goal is below 5, the
  search strategy emits a command in automatic mode that only turns: for a ball it is
  tagged \<open>SEEK_BALL_TURN\<close>, sets the turn speed (a tenth of the maximum) and rotates
  by 67 degrees; for the home base it is tagged \<open>SEEK_HOME_TURN\<close>, sets the maximum
  speed and rotates by 60 degrees.
\<close>

theorem searchStrategy_turn:
  "(countConsecutive h SEEK_BALL_TURN < 5 \<longrightarrow>
      ballSearchStrategy S h rnd response =
        \<lparr>mode = Some AUTOMATIC_MODE, goal = Some SEEK_BALL_TURN, correlationID = None,
         actions = [SetSpeed (MAX_SPEED S / 10), MakeTurn 67]\<rparr>)
   \<and> (countConsecutive h SEEK_HOME_TURN < 5 \<longrightarrow>
      homeSearchStrategy S h rnd response =
        \<lparr>mode = Some AUTOMATIC_MODE, goal = Some SEEK_HOME_TURN, correlationID = None,
         actions = [SetSpeed (MAX_SPEED S), MakeTurn 60]\<rparr>)"
  by (simp add: ballSearchStrategy_def homeSearchStrategy_def countGoals_countConsecutive
      TURN_SPEED_def command_defs)

text \<open>Four ball turns in the history, and the empty history for the home base.\<close>

theorem searchStrategy_turn_witness:
  "ballSearchStrategy sample_settings (replicate 4 (sent SEEK_BALL_TURN)) (0, 0) \<lparr>bBoxes = []\<rparr> =
        \<lparr>mode = Some AUTOMATIC_MODE, goal = Some SEEK_BALL_TURN, correlationID = None,
         actions = [SetSpeed 10, MakeTurn 67]\<rparr>
   \<and> homeSearchStrategy sample_settings [] (0, 0) \<lparr>bBoxes = []\<rparr> =
        \<lparr>mode = Some AUTOMATIC_MODE, goal = Some SEEK_HOME_TURN, correlationID = None,
         actions = [SetSpeed 100, MakeTurn 60]\<rparr>"
  using searchStrategy_turn [of "replicate 4 (sent SEEK_BALL_TURN)" sample_settings "(0, 0)" "\<lparr>bBoxes = []\<rparr>"]
    searchStrategy_turn [of "[]" sample_settings "(0, 0)" "\<lparr>bBoxes = []\<rparr>"]
  by (simp add: countConsecutive_replicate sample_settings_def countConsecutive_def)

text \<open>
  Claim C6, as stated, gives both turns the reduced turn speed. The home search sets the
  maximum speed: with a maximum of 100 the turn speed is 10, and the command of the home
  search contains \<open>SetSpeed 100\<close> and no \<open>SetSpeed 10\<close>.
\<close>

theorem homeSearchStrategy_turn_speed_counterexample:
  "countConsecutive [] SEEK_HOME_TURN < 5
   \<and> actions (homeSearchStrategy sample_settings [] (0, 0) \<lparr>bBoxes = []\<rparr>)
       = [SetSpeed (MAX_SPEED sample_settings), MakeTurn 60]
   \<and> MAX_SPEED sample_settings = 100
   \<and> TURN_SPEED sample_settings = 10
   \<and> SetSpeed (TURN_SPEED sample_settings)
       \<notin> set (actions (homeSearchStrategy sample_settings [] (0, 0) \<lparr>bBoxes = []\<rparr>))"
  by (simp add: homeSearchStrategy_def countGoals_def countConsecutive_def TURN_SPEED_def
      sample_settings_def command_defs)

text \<open>
  Claim C7, amended. Once the consecutive count of the seek-turn goal has reached 5, and
  for every value \<open>r\<close> in \<open>[0, 1)\<close> of the first random draw, the search strategy emits
  a command in automatic mode that only drives. For a ball it is tagged
  \<open>SEEK_BALL_MOVE\<close>, sets the turn speed, and drives a distance of magnitude
  \<open>100 + \<lfloor>600 r\<rfloor>\<close>, an integer of \<open>[100, 700)\<close>, each value \<open>100 + k\<close> being taken
  exactly for \<open>r\<close> in \<open>[k / 600, (k + 1) / 600)\<close>; the distance is negative exactly
  when the second draw is below 1/4. For the home base it is tagged \<open>GO2BASE\<close>, sets
  the maximum speed, and drives \<open>200 + \<lfloor>700 r\<rfloor>\<close>, an integer of \<open>[200, 900)\<close>, never
  negative.
\<close>

theorem searchStrategy_move:
  assumes "0 \<le> fst rnd" and "fst rnd < 1"
  shows "(5 \<le> countConsecutive h SEEK_BALL_TURN \<longrightarrow>
          (\<exists>d. ballSearchStrategy S h rnd response =
                 \<lparr>mode = Some AUTOMATIC_MODE, goal = Some SEEK_BALL_MOVE, correlationID = None,
                  actions = [SetSpeed (MAX_SPEED S / 10), Drive d]\<rparr>
               \<and> 100 \<le> \<bar>d\<bar> \<and> \<bar>d\<bar> < 700
               \<and> (d < 0 \<longleftrightarrow> snd rnd < 1 / 4)
               \<and> (\<forall>k. \<bar>d\<bar> = 100 + k \<longleftrightarrow>
                      of_int k \<le> fst rnd * 600 \<and> fst rnd * 600 < of_int k + 1)))
       \<and> (5 \<le> countConsecutive h SEEK_HOME_TURN \<longrightarrow>
          (\<exists>d. homeSearchStrategy S h rnd response =
                 \<lparr>mode = Some AUTOMATIC_MODE, goal = Some GO2BASE, correlationID = None,
                  actions = [SetSpeed (MAX_SPEED S), Drive d]\<rparr>
               \<and> 200 \<le> d \<and> d < 900
               \<and> (\<forall>k. d = 200 + k \<longleftrightarrow>
                      of_int k \<le> fst rnd * 700 \<and> fst rnd * 700 < of_int k + 1)))"
proof -
  define b where "b = \<lfloor>fst rnd * 600\<rfloor>"
  define m where "m = \<lfloor>fst rnd * 700\<rfloor>"
  have b: "0 \<le> b" "b < 600"
    using assms unfolding b_def by (simp_all add: floor_less_iff)
  have m: "0 \<le> m" "m < 700"
    using assms unfolding m_def by (simp_all add: floor_less_iff)
  have bk: "b = k \<longleftrightarrow> of_int k \<le> fst rnd * 600 \<and> fst rnd * 600 < of_int k + 1" for k
    unfolding b_def by (rule floor_eq_iff)
  have mk: "m = k \<longleftrightarrow> of_int k \<le> fst rnd * 700 \<and> fst rnd * 700 < of_int k + 1" for k
    unfolding m_def by (rule floor_eq_iff)
  have ball: "ballSearchStrategy S h rnd response =
      \<lparr>mode = Some AUTOMATIC_MODE, goal = Some SEEK_BALL_MOVE, correlationID = None,
       actions = [SetSpeed (MAX_SPEED S / 10),
                  Drive (if snd rnd < 1 / 4 then - (100 + b) else 100 + b)]\<rparr>"
    if "5 \<le> countConsecutive h SEEK_BALL_TURN"
    using that
    by (simp add: ballSearchStrategy_def countGoals_countConsecutive TURN_SPEED_def b_def
        command_defs Let_def)
  have home: "homeSearchStrategy S h rnd response =
      \<lparr>mode = Some AUTOMATIC_MODE, goal = Some GO2BASE, correlationID = None,
       actions = [SetSpeed (MAX_SPEED S), Drive (200 + m)]\<rparr>"
    if "5 \<le> countConsecutive h SEEK_HOME_TURN"
    using that
    by (simp add: homeSearchStrategy_def countGoals_countConsecutive m_def command_defs Let_def)
  have ball_d: "100 \<le> \<bar>d\<bar> \<and> \<bar>d\<bar> < 700 \<and> (d < 0 \<longleftrightarrow> snd rnd < 1 / 4)
       \<and> (\<forall>k. \<bar>d\<bar> = 100 + k \<longleftrightarrow> of_int k \<le> fst rnd * 600 \<and> fst rnd * 600 < of_int k + 1)"
    if "d = (if snd rnd < 1 / 4 then - (100 + b) else 100 + b)" for d
  proof -
    have abs: "\<bar>d\<bar> = 100 + b"
      using that b by (simp split: if_splits)
    have sign: "d < 0 \<longleftrightarrow> snd rnd < 1 / 4"
      using that b by (simp split: if_splits)
    show ?thesis
      using b sign by (simp add: abs bk)
  qed
  have home_d: "200 \<le> 200 + m \<and> 200 + m < 900
       \<and> (\<forall>k. 200 + m = 200 + k \<longleftrightarrow> of_int k \<le> fst rnd * 700 \<and> fst rnd * 700 < of_int k + 1)"
    using m by (simp add: mk)
  show ?thesis
    using ball ball_d home home_d by blast
qed

text \<open>
  Five turns in the history and the draws 1/2 and 1/10: the ball search drives 400 mm
  backwards, the home search 550 mm forwards.
\<close>

theorem searchStrategy_move_witness:
  "ballSearchStrategy sample_settings (replicate 5 (sent SEEK_BALL_TURN)) (1 / 2, 1 / 10)
       \<lparr>bBoxes = []\<rparr> =
     \<lparr>mode = Some AUTOMATIC_MODE, goal = Some SEEK_BALL_MOVE, correlationID = None,
      actions = [SetSpeed 10, Drive (- 400)]\<rparr>
   \<and> homeSearchStrategy sample_settings (replicate 5 (sent SEEK_HOME_TURN)) (1 / 2, 1 / 10)
       \<lparr>bBoxes = []\<rparr> =
     \<lparr>mode = Some AUTOMATIC_MODE, goal = Some GO2BASE, correlationID = None,
      actions = [SetSpeed 100, Drive 550]\<rparr>"
proof -
  have rnd: "0 \<le> fst (1 / 2 :: real, 1 / 10 :: real)" "fst (1 / 2 :: real, 1 / 10 :: real) < 1"
    by simp_all
  have five: "5 \<le> countConsecutive (replicate 5 (sent g)) g" for g
    by (simp add: countConsecutive_replicate)
  from searchStrategy_move [OF rnd, of "replicate 5 (sent SEEK_BALL_TURN)" sample_settings
      "\<lparr>bBoxes = []\<rparr>"] five
  obtain d where d: "ballSearchStrategy sample_settings (replicate 5 (sent SEEK_BALL_TURN))
        (1 / 2, 1 / 10) \<lparr>bBoxes = []\<rparr> =
      \<lparr>mode = Some AUTOMATIC_MODE, goal = Some SEEK_BALL_MOVE, correlationID = None,
       actions = [SetSpeed (MAX_SPEED sample_settings / 10), Drive d]\<rparr>"
    and neg: "d < 0 \<longleftrightarrow> snd (1 / 2 :: real, 1 / 10 :: real) < 1 / 4"
    and val: "\<forall>k. \<bar>d\<bar> = 100 + k \<longleftrightarrow>
          of_int k \<le> fst (1 / 2 :: real, 1 / 10 :: real) * 600
          \<and> fst (1 / 2 :: real, 1 / 10 :: real) * 600 < of_int k + 1"
    by blast
  from val [rule_format, of 300] have "\<bar>d\<bar> = 400"
    by simp
  with neg have "d = - 400"
    by simp
  with d have ball: "ballSearchStrategy sample_settings (replicate 5 (sent SEEK_BALL_TURN))
        (1 / 2, 1 / 10) \<lparr>bBoxes = []\<rparr> =
      \<lparr>mode = Some AUTOMATIC_MODE, goal = Some SEEK_BALL_MOVE, correlationID = None,
       actions = [SetSpeed 10, Drive (- 400)]\<rparr>"
    by (simp add: sample_settings_def)
  from searchStrategy_move [OF rnd, of "replicate 5 (sent SEEK_HOME_TURN)" sample_settings
      "\<lparr>bBoxes = []\<rparr>"] five
  obtain e where e: "homeSearchStrategy sample_settings (replicate 5 (sent SEEK_HOME_TURN))
        (1 / 2, 1 / 10) \<lparr>bBoxes = []\<rparr> =
      \<lparr>mode = Some AUTOMATIC_MODE, goal = Some GO2BASE, correlationID = None,
       actions = [SetSpeed (MAX_SPEED sample_settings), Drive e]\<rparr>"
    and val: "\<forall>k. e = 200 + k \<longleftrightarrow>
          of_int k \<le> fst (1 / 2 :: real, 1 / 10 :: real) * 700
          \<and> fst (1 / 2 :: real, 1 / 10 :: real) * 700 < of_int k + 1"
    by blast
  from val [rule_format, of 350] have "e = 550"
    by simp
  with e have home: "homeSearchStrategy sample_settings (replicate 5 (sent SEEK_HOME_TURN))
        (1 / 2, 1 / 10) \<lparr>bBoxes = []\<rparr> =
      \<lparr>mode = Some AUTOMATIC_MODE, goal = Some GO2BASE, correlationID = None,
       actions = [SetSpeed 100, Drive 550]\<rparr>"
    by (simp add: sample_settings_def)
  from ball home show ?thesis
    by (rule conjI)
qed

text \<open>
  Claim C7, as stated, tags the relocation with a seek-move goal and sets a reduced speed
  in both cases. After five home turns the home search tags its command \<open>GO2BASE\<close>
  and sets the maximum speed 100, not the turn speed 10.
\<close>

theorem homeSearchStrategy_move_counterexample:
  "countConsecutive (replicate 5 (sent SEEK_HOME_TURN)) SEEK_HOME_TURN = 5
   \<and> homeSearchStrategy sample_settings (replicate 5 (sent SEEK_HOME_TURN)) (1 / 2, 0)
        \<lparr>bBoxes = []\<rparr> =
      \<lparr>mode = Some AUTOMATIC_MODE, goal = Some GO2BASE, correlationID = None,
       actions = [SetSpeed (MAX_SPEED sample_settings), Drive 550]\<rparr>
   \<and> MAX_SPEED sample_settings = 100
   \<and> TURN_SPEED sample_settings = 10
   \<and> goal (homeSearchStrategy sample_settings (replicate 5 (sent SEEK_HOME_TURN)) (1 / 2, 0)
        \<lparr>bBoxes = []\<rparr>) \<noteq> Some SEEK_BALL_MOVE
   \<and> SetSpeed (TURN_SPEED sample_settings)
       \<notin> set (actions (homeSearchStrategy sample_settings (replicate 5 (sent SEEK_HOME_TURN))
                  (1 / 2, 0) \<lparr>bBoxes = []\<rparr>))"
  by (simp add: homeSearchStrategy_def countGoals_countConsecutive countConsecutive_replicate
      TURN_SPEED_def sample_settings_def command_defs)

section \<open>Properties of the admission of messages\<close>

text \<open>
  One step of the check, from any state of the controller. A message is admitted only if
  it carries a non-zero timestamp that is not below the recorded maximum and not older
  than 60 seconds; a message with a non-zero timestamp strictly below the maximum is
  rejected as out of order and not handed to the navigation.
\<close>

lemma isMessageValid_order:
  "(fst (isMessageValid now st msg) \<longrightarrow>
      (\<exists>t. timestampMs msg = Some t \<and> t \<noteq> 0 \<and> maxMsgTimeStampMs st \<le> t
           \<and> now - 60000 \<le> t))
   \<and> (\<forall>t. timestampMs msg = Some t \<and> t \<noteq> 0 \<and> t < maxMsgTimeStampMs st \<longrightarrow>
        isMessageValid now st msg =
          (False, st\<lparr>rejectedOutOfOrderMessages := rejectedOutOfOrderMessages st + 1\<rparr>)
        \<and> inboudMessageHandler now st msg =
          (st\<lparr>totalMessagesReceived := totalMessagesReceived st + 1,
              rejectedOutOfOrderMessages := rejectedOutOfOrderMessages st + 1,
              totalErrors := totalErrors st + 1\<rparr>, None))
   \<and> (snd (inboudMessageHandler now st msg) \<noteq> None \<longrightarrow>
        (\<exists>t. timestampMs msg = Some t \<and> maxMsgTimeStampMs st \<le> t))"
  by (auto simp add: isMessageValid_def inboudMessageHandler_def MAX_MSG_AGE_SEC_def Let_def
      split: option.splits if_splits)

text \<open>
  Claim C9 asks that a message is admitted only if its timestamp is strictly greater than
  the maximum seen so far. After a start, the sample message is admitted and its
  timestamp becomes the recorded maximum. The same message, arriving a second time with
  the timestamp equal to that maximum, is valid again (the check rejects only on
  \<^verbatim>\<open>maxMsgTimeStampMs > msg.timestampMs\<close>), no counter of rejections moves, and the
  duplicate is handed to the navigation.
\<close>

theorem inboudMessageHandler_equal_timestamp:
  "timestampMs sample_message = Some 1519671071945
   \<and> inboudMessageHandler 1519671072000 started_controller sample_message
       = (started_controller\<lparr>totalMessagesReceived := 1, maxMsgTimeStampMs := 1519671071945,
            inboundMsgHistory := [sample_message]\<rparr>, Some sample_message)
   \<and> isMessageValid 1519671072000
        (started_controller\<lparr>totalMessagesReceived := 2, maxMsgTimeStampMs := 1519671071945,
            inboundMsgHistory := [sample_message]\<rparr>) sample_message
       = (True, started_controller\<lparr>totalMessagesReceived := 2,
            maxMsgTimeStampMs := 1519671071945, inboundMsgHistory := [sample_message]\<rparr>)
   \<and> inboudMessageHandler 1519671072000
        (started_controller\<lparr>totalMessagesReceived := 1, maxMsgTimeStampMs := 1519671071945,
            inboundMsgHistory := [sample_message]\<rparr>) sample_message
       = (started_controller\<lparr>totalMessagesReceived := 2, maxMsgTimeStampMs := 1519671071945,
            inboundMsgHistory := [sample_message, sample_message]\<rparr>, Some sample_message)"
  by (simp add: isMessageValid_def inboudMessageHandler_def saveInboundMessage_def
      MAX_MSG_AGE_SEC_def MAX_INBOUND_HISTORY_def started_controller_def sample_message_def)

end
